theory Spec2Isabelle
  imports Main
begin

section \<open>Data model\<close>

text \<open>
  The application keeps one global \<open>state\<close> object and drives a map renderer.
  JavaScript numbers (coordinates, zoom) are only stored and handed on by the code, never
  computed with, so they are carried as integers. Plain objects used as dictionaries are
  maps; where the code enumerates the keys (\<open>Object.keys\<close>) the object is an
  association list in enumeration order. The data files are taken to have the shape
  the code reads: a terminology entry has its default view and its levels, a feature
  has its three string properties. The page elements (dropdown, buttons, search box)
  hold no state that the operations below read back, and are left out; what a button
  does when clicked is \<open>clickAdminButton\<close>.
\<close>

type_synonym number = int

type_synonym lnglat = "number \<times> number"

record view =
  center :: lnglat
  zoom :: number

record level_info =
  level_term :: string
  level_file :: string

record country_data =
  defaultView :: view
  levels :: "(string \<times> level_info) list"

record content_record =
  videos :: "string list option"
  images :: "string list option"
  description :: "string option"

record properties =
  shapeName :: string
  shapeType :: string
  shapeGroup :: string

type_synonym feature = properties

type_synonym geojson = "feature list"

record search_item =
  item_name :: string
  hierarchy :: "string list"
  item_iso :: string
  item_level :: string
  item_center :: lnglat

subsection \<open>The renderer\<close>

text \<open>
  The renderer is the external map library. Its registry is modelled as far as the
  code observes it: the named sources, the draw layers bottom to top, the camera, the
  click callbacks registered per layer and the popups shown.
\<close>

datatype layer_type = Fill | Line

record layer =
  layer_id :: string
  layer_kind :: layer_type
  layer_source :: string
  visible :: bool

datatype media = is_Video: Video string | is_Image: Image string string

record popup =
  popup_title :: string
  popup_subtitle :: string
  popup_media :: "media list"
  popup_description :: "string option"
  popup_at :: lnglat

record renderer =
  sources :: "string \<rightharpoonup> geojson"
  layers :: "layer list"
  camera :: view
  click_handlers :: "(string \<times> string \<times> string) list"
  popups :: "popup list"

subsection \<open>The session state\<close>

text \<open>
  \<open>activeLevels\<close> is a JavaScript \<open>Set\<close>: a duplicate-free list in insertion
  order. \<open>pending\<close> holds the suspended \<open>loadAndRenderLayer\<close> calls (one per
  network fetch in flight), \<open>requests\<close> the paths of all fetches issued so far,
  \<open>console\<close> the messages of \<open>console.error\<close>, and \<open>rejected\<close> the
  exceptions that left an async function nobody awaits.
\<close>

record request =
  req_iso :: string
  req_level :: string
  req_path :: string

datatype response = NetworkError | Response bool nat "geojson option"

record state =
  terminology :: "string \<rightharpoonup> country_data"
  content :: "string \<rightharpoonup> (string \<rightharpoonup> (string \<rightharpoonup> content_record))"
  selectedCountryISO :: "string option"
  activeLevels :: "string list"
  geoJsonCache :: "string \<rightharpoonup> geojson"
  rmap :: renderer
  pending :: "request list"
  requests :: "string list"
  console :: "string list"
  rejected :: "string list"

definition dataBaseUrl :: string where
  "dataBaseUrl = ''https://pub-6106e7f2cf224a18b071c86dd9511e90.r2.dev/geoboundaries_data''"

section \<open>Renderer operations\<close>

definition getSource :: "renderer \<Rightarrow> string \<Rightarrow> bool" where
  "getSource m sid = (sources m sid \<noteq> None)"

definition getLayer :: "renderer \<Rightarrow> string \<Rightarrow> bool" where
  "getLayer m lid = (lid \<in> set (map layer_id (layers m)))"

definition setVisible :: "renderer \<Rightarrow> string \<Rightarrow> renderer" where
  "setVisible m lid =
     m\<lparr>layers := map (\<lambda>l. if layer_id l = lid then l\<lparr>visible := True\<rparr> else l) (layers m)\<rparr>"

text \<open>\<open>addSource\<close> raises when the name is taken; \<open>None\<close> is the exception.\<close>

definition addSource :: "renderer \<Rightarrow> string \<Rightarrow> geojson \<Rightarrow> renderer option" where
  "addSource m sid g =
     (if getSource m sid then None else Some (m\<lparr>sources := (sources m)(sid \<mapsto> g)\<rparr>))"

text \<open>
  \<open>addLayer\<close> is called without a draw-order position, so the new layer goes on top
  (the end of the list); a layer whose name is taken is reported by the renderer and
  not added.
\<close>

definition addLayer :: "renderer \<Rightarrow> string \<Rightarrow> layer_type \<Rightarrow> string \<Rightarrow> renderer" where
  "addLayer m lid k sid =
     (if getLayer m lid then m
      else m\<lparr>layers := layers m @
             [\<lparr>layer_id = lid, layer_kind = k, layer_source = sid, visible = True\<rparr>]\<rparr>)"

definition removeLayerR :: "renderer \<Rightarrow> string \<Rightarrow> renderer" where
  "removeLayerR m lid = m\<lparr>layers := filter (\<lambda>l. layer_id l \<noteq> lid) (layers m)\<rparr>"

text \<open>A source still used by a layer is not removed by the renderer.\<close>

definition removeSource :: "renderer \<Rightarrow> string \<Rightarrow> renderer" where
  "removeSource m sid =
     (if sid \<in> set (map layer_source (layers m)) then m
      else m\<lparr>sources := (sources m)(sid := None)\<rparr>)"

definition flyTo :: "renderer \<Rightarrow> lnglat \<Rightarrow> number \<Rightarrow> renderer" where
  "flyTo m c z = m\<lparr>camera := \<lparr>center = c, zoom = z\<rparr>\<rparr>"

definition onClick :: "renderer \<Rightarrow> string \<Rightarrow> string \<Rightarrow> string \<Rightarrow> renderer" where
  "onClick m lid isoCode levelCode =
     m\<lparr>click_handlers := click_handlers m @ [(lid, isoCode, levelCode)]\<rparr>"

section \<open>Core logic\<close>

definition cacheKey :: "string \<Rightarrow> string \<Rightarrow> string" where
  "cacheKey isoCode levelCode = isoCode @ ''_'' @ levelCode"

definition sourceId :: "string \<Rightarrow> string" where
  "sourceId k = ''source-'' @ k"

definition layerIdFill :: "string \<Rightarrow> string" where
  "layerIdFill k = ''layer-fill-'' @ k"

definition layerIdLine :: "string \<Rightarrow> string" where
  "layerIdLine k = ''layer-line-'' @ k"

text \<open>
  The tail of \<open>loadAndRenderLayer\<close>, from \<open>const geojson = ...\<close> on: add the source,
  append the fill and the outline layer, register the click callback. When
  \<open>addSource\<close> raises, nothing after it runs and the exception leaves the function.
\<close>

definition renderLayer :: "state \<Rightarrow> string \<Rightarrow> string \<Rightarrow> geojson \<Rightarrow> state" where
  "renderLayer s isoCode levelCode g =
     (let k = cacheKey isoCode levelCode in
      case addSource (rmap s) (sourceId k) g of
        None \<Rightarrow> s\<lparr>rejected := rejected s @ [''Source already exists'']\<rparr>
      | Some m1 \<Rightarrow>
          (let m2 = addLayer m1 (layerIdFill k) Fill (sourceId k);
               m3 = addLayer m2 (layerIdLine k) Line (sourceId k);
               m4 = onClick m3 (layerIdFill k) isoCode levelCode
           in s\<lparr>rmap := m4\<rparr>))"

text \<open>
  \<open>loadAndRenderLayer\<close> up to its first \<open>await\<close>. With the source present it only
  makes the two layers visible. With the dataset cached it renders at once. Otherwise it
  reads the file name from the terminology (a missing country or level raises a
  \<open>TypeError\<close>), issues the fetch and suspends.
\<close>

definition loadAndRenderLayer :: "state \<Rightarrow> string \<Rightarrow> string \<Rightarrow> state" where
  "loadAndRenderLayer s isoCode levelCode =
     (let k = cacheKey isoCode levelCode in
      if getSource (rmap s) (sourceId k) then
        s\<lparr>rmap := setVisible (setVisible (rmap s) (layerIdFill k)) (layerIdLine k)\<rparr>
      else
        case geoJsonCache s k of
          Some g \<Rightarrow> renderLayer s isoCode levelCode g
        | None \<Rightarrow>
            (case terminology s isoCode of
               None \<Rightarrow> s\<lparr>rejected := rejected s @ [''TypeError'']\<rparr>
             | Some countryData \<Rightarrow>
                 (case map_of (levels countryData) levelCode of
                    None \<Rightarrow> s\<lparr>rejected := rejected s @ [''TypeError'']\<rparr>
                  | Some info \<Rightarrow>
                      (let path = dataBaseUrl @ ''/'' @ level_file info in
                       s\<lparr>pending := pending s @
                            [\<lparr>req_iso = isoCode, req_level = levelCode, req_path = path\<rparr>],
                         requests := requests s @ [path]\<rparr>))))"

text \<open>
  The rest of \<open>loadAndRenderLayer\<close>, run when the fetch it awaits settles. A network
  error, a status that is not ok and a body that does not parse all end in the
  \<open>catch\<close> block: log and return. Only a parsed body is written to the cache, and the
  layers are then rendered from the cache entry. Between \<open>await fetch\<close> and
  \<open>await res.json()\<close> the code touches no state, so the two suspensions are one.
\<close>

definition loadFailed :: "string \<Rightarrow> string \<Rightarrow> string" where
  "loadFailed isoCode levelCode = ''Failed to load GeoJSON for '' @ isoCode @ '' '' @ levelCode @ '':''"

definition fetchSettled :: "state \<Rightarrow> request \<Rightarrow> response \<Rightarrow> state" where
  "fetchSettled s r res =
     (let isoCode = req_iso r; levelCode = req_level r; k = cacheKey isoCode levelCode in
      case res of
        NetworkError \<Rightarrow> s\<lparr>console := console s @ [loadFailed isoCode levelCode]\<rparr>
      | Response ok status body \<Rightarrow>
          if \<not> ok then s\<lparr>console := console s @ [loadFailed isoCode levelCode]\<rparr>
          else
            (case body of
               None \<Rightarrow> s\<lparr>console := console s @ [loadFailed isoCode levelCode]\<rparr>
             | Some g \<Rightarrow>
                 renderLayer (s\<lparr>geoJsonCache := (geoJsonCache s)(k \<mapsto> g)\<rparr>) isoCode levelCode g))"

definition removeLayer :: "state \<Rightarrow> string \<Rightarrow> string \<Rightarrow> state" where
  "removeLayer s isoCode levelCode =
     (let k = cacheKey isoCode levelCode;
          m1 = (if getLayer (rmap s) (layerIdFill k) then removeLayerR (rmap s) (layerIdFill k)
                else rmap s);
          m2 = (if getLayer m1 (layerIdLine k) then removeLayerR m1 (layerIdLine k) else m1);
          m3 = (if getSource m2 (sourceId k) then removeSource m2 (sourceId k) else m2)
      in s\<lparr>rmap := m3\<rparr>)"

text \<open>\<open>Set.add\<close> and \<open>Set.delete\<close> on the insertion-ordered set.\<close>

definition set_add :: "string list \<Rightarrow> string \<Rightarrow> string list" where
  "set_add xs x = (if x \<in> set xs then xs else xs @ [x])"

definition set_delete :: "string list \<Rightarrow> string \<Rightarrow> string list" where
  "set_delete xs x = filter (\<lambda>y. y \<noteq> x) xs"

definition toggleAdminLevel :: "state \<Rightarrow> string \<Rightarrow> string \<Rightarrow> bool \<Rightarrow> state" where
  "toggleAdminLevel s isoCode levelCode shouldEnable =
     (if shouldEnable then
        loadAndRenderLayer (s\<lparr>activeLevels := set_add (activeLevels s) levelCode\<rparr>) isoCode levelCode
      else
        removeLayer (s\<lparr>activeLevels := set_delete (activeLevels s) levelCode\<rparr>) isoCode levelCode)"

definition noTerminology :: "string \<Rightarrow> string" where
  "noTerminology isoCode = ''No terminology data for '' @ isoCode"

text \<open>
  \<open>selectCountry\<close> contains no \<open>await\<close>: it runs to its end in one go, and the
  \<open>toggleAdminLevel\<close> it starts is left running on its own.
\<close>

definition selectCountry :: "state \<Rightarrow> string \<Rightarrow> state" where
  "selectCountry s isoCode =
     (let s1 = s\<lparr>selectedCountryISO := Some isoCode, activeLevels := []\<rparr> in
      case terminology s1 isoCode of
        None \<Rightarrow> s1\<lparr>console := console s1 @ [noTerminology isoCode]\<rparr>
      | Some countryData \<Rightarrow>
          (let s2 = s1\<lparr>rmap := flyTo (rmap s1) (center (defaultView countryData))
                                        (zoom (defaultView countryData))\<rparr>
           in case map fst (levels countryData) of
                [] \<Rightarrow> s2
              | l0 # _ \<Rightarrow> toggleAdminLevel s2 isoCode l0 True))"

text \<open>The click handler of an admin button, as \<open>renderAdminButtons\<close> registers it.\<close>

definition clickAdminButton :: "state \<Rightarrow> string \<Rightarrow> string \<Rightarrow> state" where
  "clickAdminButton s isoCode levelCode =
     (let isActive = (levelCode \<in> set (activeLevels s))
      in toggleAdminLevel s isoCode levelCode (\<not> isActive))"

definition selectSearchResult :: "state \<Rightarrow> search_item \<Rightarrow> state" where
  "selectSearchResult s item =
     (let s1 = (if selectedCountryISO s \<noteq> Some (item_iso item)
                then selectCountry s (item_iso item) else s);
          s2 = s1\<lparr>rmap := flyTo (rmap s1) (item_center item) 7\<rparr>
      in toggleAdminLevel s2 (item_iso item) (item_level item) True)"

section \<open>Interaction\<close>

subsection \<open>The library functions the click handler uses\<close>

text \<open>
  \<open>String.prototype.replace\<close> with a string pattern replaces the first occurrence.
\<close>

fun replaceFirst :: "string \<Rightarrow> string \<Rightarrow> string \<Rightarrow> string" where
  "replaceFirst pat rep [] = (if pat = [] then rep else [])"
| "replaceFirst pat rep (c # cs) =
     (if take (length pat) (c # cs) = pat then rep @ drop (length pat) (c # cs)
      else c # replaceFirst pat rep cs)"

text \<open>
  \<open>parseInt\<close> without a radix: leading white space is skipped, a sign is read, the
  prefix \<open>0x\<close> selects base 16, and the longest run of digits is the value. No digit
  at all gives \<open>NaN\<close>, which is \<open>None\<close> here.
\<close>

definition isWhiteSpace :: "char \<Rightarrow> bool" where
  "isWhiteSpace c = (c \<in> set [CHR '' '', CHR 0x09, CHR 0x0A, CHR 0x0B, CHR 0x0C, CHR 0x0D])"

definition digitValue :: "char \<Rightarrow> nat option" where
  "digitValue c = map_of
     [(CHR ''0'', 0), (CHR ''1'', 1), (CHR ''2'', 2), (CHR ''3'', 3), (CHR ''4'', 4),
      (CHR ''5'', 5), (CHR ''6'', 6), (CHR ''7'', 7), (CHR ''8'', 8), (CHR ''9'', 9),
      (CHR ''a'', 10), (CHR ''b'', 11), (CHR ''c'', 12), (CHR ''d'', 13), (CHR ''e'', 14),
      (CHR ''f'', 15), (CHR ''A'', 10), (CHR ''B'', 11), (CHR ''C'', 12), (CHR ''D'', 13),
      (CHR ''E'', 14), (CHR ''F'', 15)] c"

fun digitsPrefix :: "nat \<Rightarrow> string \<Rightarrow> nat list" where
  "digitsPrefix R [] = []"
| "digitsPrefix R (c # cs) =
     (case digitValue c of
        None \<Rightarrow> []
      | Some d \<Rightarrow> if d < R then d # digitsPrefix R cs else [])"

definition parseInt :: "string \<Rightarrow> int option" where
  "parseInt str =
     (let s0 = dropWhile isWhiteSpace str;
          sgn = (if take 1 s0 = ''-'' then - 1 else 1 :: int);
          s1 = (if take 1 s0 = ''-'' \<or> take 1 s0 = ''+'' then drop 1 s0 else s0);
          R = (if take 2 s1 = ''0x'' \<or> take 2 s1 = ''0X'' then 16 else 10 :: nat);
          s2 = (if R = 16 then drop 2 s1 else s1);
          ds = digitsPrefix R s2
      in if ds = [] then None
         else Some (sgn * int (foldl (\<lambda>a d. a * R + d) 0 ds)))"

text \<open>
  \<open>Array.prototype.sort\<close> with a comparator is stable; a comparator result of
  \<open>NaN\<close> counts as 0. Elements are inserted left to right, each one behind everything
  it does not have to precede.
\<close>

fun insertSorted :: "('a \<Rightarrow> 'a \<Rightarrow> int) \<Rightarrow> 'a \<Rightarrow> 'a list \<Rightarrow> 'a list" where
  "insertSorted cmp x [] = [x]"
| "insertSorted cmp x (y # ys) =
     (if cmp x y < 0 then x # y # ys else y # insertSorted cmp x ys)"

definition array_sort :: "('a \<Rightarrow> 'a \<Rightarrow> int) \<Rightarrow> 'a list \<Rightarrow> 'a list" where
  "array_sort cmp xs = foldl (\<lambda>acc x. insertSorted cmp x acc) [] xs"

subsection \<open>Click handling and popup\<close>

definition adminLevel :: "feature \<Rightarrow> int option" where
  "adminLevel f = parseInt (replaceFirst ''ADM'' [] (shapeType f))"

text \<open>The comparator of \<open>handleFeatureClick\<close>: \<open>levelB - levelA\<close>.\<close>

definition compareLevels :: "feature \<Rightarrow> feature \<Rightarrow> int" where
  "compareLevels a b =
     (case (adminLevel a, adminLevel b) of
        (Some levelA, Some levelB) \<Rightarrow> levelB - levelA
      | _ \<Rightarrow> 0)"

definition emptyContent :: content_record where
  "emptyContent = \<lparr>videos = Some [], images = Some [], description = Some []\<rparr>"

definition lookupLevelTerm :: "state \<Rightarrow> string \<Rightarrow> string \<Rightarrow> string" where
  "lookupLevelTerm s isoCode shapeTy =
     (case terminology s isoCode of
        None \<Rightarrow> shapeTy
      | Some termData \<Rightarrow>
          (case map_of (levels termData) shapeTy of
             None \<Rightarrow> shapeTy
           | Some info \<Rightarrow> if level_term info = [] then shapeTy else level_term info))"

definition lookupContent :: "state \<Rightarrow> string \<Rightarrow> string \<Rightarrow> string \<Rightarrow> content_record" where
  "lookupContent s isoCode shapeTy shapeNm =
     (case content s isoCode of
        None \<Rightarrow> emptyContent
      | Some byLevel \<Rightarrow>
          (case byLevel shapeTy of
             None \<Rightarrow> emptyContent
           | Some byName \<Rightarrow>
               (case byName shapeNm of
                  None \<Rightarrow> emptyContent
                | Some c \<Rightarrow> c)))"

text \<open>
  The media part of the popup: the first video if there is one, then the first image
  if there is one.
\<close>

definition mediaHtml :: "content_record \<Rightarrow> string \<Rightarrow> media list" where
  "mediaHtml c shapeNm =
     (case videos c of
        Some (videoUrl # _) \<Rightarrow> [Video videoUrl]
      | _ \<Rightarrow> []) @
     (case images c of
        Some (img # _) \<Rightarrow> [Image img shapeNm]
      | _ \<Rightarrow> [])"

definition buildPopup :: "state \<Rightarrow> feature \<Rightarrow> lnglat \<Rightarrow> popup" where
  "buildPopup s feat lngLat =
     (let shapeNm = shapeName feat; shapeTy = shapeType feat; isoCode = shapeGroup feat;
          levelTerm = lookupLevelTerm s isoCode shapeTy;
          c = lookupContent s isoCode shapeTy shapeNm
      in \<lparr>popup_title = shapeNm, popup_subtitle = levelTerm,
          popup_media = mediaHtml c shapeNm,
          popup_description =
            (case description c of
               None \<Rightarrow> None
             | Some d \<Rightarrow> if d = [] then None else Some d),
          popup_at = lngLat\<rparr>)"

definition showPopup :: "state \<Rightarrow> feature \<Rightarrow> lnglat \<Rightarrow> state" where
  "showPopup s feat lngLat =
     s\<lparr>rmap := (rmap s)\<lparr>popups := popups (rmap s) @ [buildPopup s feat lngLat]\<rparr>\<rparr>"

text \<open>
  \<open>query\<close> stands for the renderer's \<open>queryRenderedFeatures\<close>: the features under a
  screen point within the named layers, in the order the renderer reports them.
\<close>

definition resolveFeature :: "feature list \<Rightarrow> feature option" where
  "resolveFeature features =
     (case array_sort compareLevels features of
        [] \<Rightarrow> None
      | topFeature # _ \<Rightarrow> Some topFeature)"

definition handleFeatureClick ::
  "state \<Rightarrow> (lnglat \<Rightarrow> string list \<Rightarrow> feature list) \<Rightarrow> lnglat \<Rightarrow> lnglat \<Rightarrow> string \<Rightarrow> string \<Rightarrow> state"
where
  "handleFeatureClick s query point lngLat isoCode levelCode =
     (let activeLayers = map (\<lambda>lvl. layerIdFill (cacheKey isoCode lvl)) (activeLevels s);
          features = query point activeLayers
      in if features = [] then s
         else (case resolveFeature features of
                 None \<Rightarrow> s
               | Some topFeature \<Rightarrow> showPopup s topFeature lngLat))"

section \<open>Sessions\<close>

text \<open>
  A session is a sequence of events: the user's commands and the settling of fetches
  in flight, in any order. \<open>FetchSettled i res\<close> resumes the \<open>i\<close>-th suspended
  \<open>loadAndRenderLayer\<close> with the response \<open>res\<close>.
\<close>

datatype event =
    SelectCountry string
  | ClickAdminButton string string
  | SelectSearchResult search_item
  | FetchSettled nat response

fun step :: "state \<Rightarrow> event \<Rightarrow> state" where
  "step s (SelectCountry isoCode) = selectCountry s isoCode"
| "step s (ClickAdminButton isoCode levelCode) = clickAdminButton s isoCode levelCode"
| "step s (SelectSearchResult item) = selectSearchResult s item"
| "step s (FetchSettled i res) =
     (if i < length (pending s)
      then fetchSettled (s\<lparr>pending := take i (pending s) @ drop (Suc i) (pending s)\<rparr>)
             (pending s ! i) res
      else s)"

definition run :: "state \<Rightarrow> event list \<Rightarrow> state" where
  "run s es = foldl step s es"

definition initialRenderer :: renderer where
  "initialRenderer =
     \<lparr>sources = Map.empty, layers = [], camera = \<lparr>center = (0, 20), zoom = 2\<rparr>,
      click_handlers = [], popups = []\<rparr>"

definition initialState ::
  "(string \<rightharpoonup> country_data) \<Rightarrow> (string \<rightharpoonup> (string \<rightharpoonup> (string \<rightharpoonup> content_record))) \<Rightarrow> state"
where
  "initialState terms cont =
     \<lparr>terminology = terms, content = cont, selectedCountryISO = None, activeLevels = [],
      geoJsonCache = Map.empty, rmap = initialRenderer, pending = [], requests = [],
      console = [], rejected = []\<rparr>"

section \<open>Example data\<close>

text \<open>
  A small catalogue and a few sessions on it, used to run the definitions on concrete
  inputs.
\<close>

definition franceData :: country_data where
  "franceData =
     \<lparr>defaultView = \<lparr>center = (2, 46), zoom = 5\<rparr>,
      levels = [(''ADM0'', \<lparr>level_term = ''Country'', level_file = ''FRA/ADM0.geojson''\<rparr>),
                (''ADM1'', \<lparr>level_term = ''Region'', level_file = ''FRA/ADM1.geojson''\<rparr>)]\<rparr>"

definition usaData :: country_data where
  "usaData =
     \<lparr>defaultView = \<lparr>center = (- 98, 39), zoom = 4\<rparr>,
      levels = [(''ADM0'', \<lparr>level_term = ''Country'', level_file = ''USA/ADM0.geojson''\<rparr>),
                (''ADM1'', \<lparr>level_term = ''State'', level_file = ''USA/ADM1.geojson''\<rparr>),
                (''ADM2'', \<lparr>level_term = ''County'', level_file = ''USA/ADM2.geojson''\<rparr>)]\<rparr>"

definition emptyCountryData :: country_data where
  "emptyCountryData = \<lparr>defaultView = \<lparr>center = (12, 42), zoom = 9\<rparr>, levels = []\<rparr>"

definition exampleTerminology :: "string \<rightharpoonup> country_data" where
  "exampleTerminology =
     [''FRA'' \<mapsto> franceData, ''USA'' \<mapsto> usaData, ''VAT'' \<mapsto> emptyCountryData]"

definition exampleState :: state where
  "exampleState = initialState exampleTerminology Map.empty"

definition exampleData :: "string \<Rightarrow> string \<Rightarrow> geojson" where
  "exampleData isoCode levelCode =
     [\<lparr>shapeName = ''Unit'', shapeType = levelCode, shapeGroup = isoCode\<rparr>]"

definition okResponse :: "string \<Rightarrow> string \<Rightarrow> response" where
  "okResponse isoCode levelCode = Response True 200 (Some (exampleData isoCode levelCode))"

definition cookCounty :: search_item where
  "cookCounty =
     \<lparr>item_name = ''Cook County'', hierarchy = [''Cook County'', ''Illinois'', ''United States''],
      item_iso = ''USA'', item_level = ''ADM2'', item_center = (- 88, 42)\<rparr>"

definition unitedStates :: search_item where
  "unitedStates =
     \<lparr>item_name = ''United States'', hierarchy = [''United States''],
      item_iso = ''USA'', item_level = ''ADM0'', item_center = (- 98, 39)\<rparr>"

definition franceSelected :: state where
  "franceSelected =
     run exampleState [SelectCountry ''FRA'', FetchSettled 0 (okResponse ''FRA'' ''ADM0'')]"

definition staleSession :: "event list" where
  "staleSession =
     [SelectCountry ''FRA'', FetchSettled 0 (okResponse ''FRA'' ''ADM0''),
      ClickAdminButton ''FRA'' ''ADM1'', SelectCountry ''USA'',
      FetchSettled 0 (okResponse ''FRA'' ''ADM1'')]"

definition switchedState :: state where
  "switchedState =
     run exampleState
       [SelectCountry ''FRA'', FetchSettled 0 (okResponse ''FRA'' ''ADM0''),
        ClickAdminButton ''FRA'' ''ADM1'', SelectCountry ''USA'']"

definition cachedState :: state where
  "cachedState =
     run exampleState
       [SelectCountry ''FRA'', FetchSettled 0 (okResponse ''FRA'' ''ADM0''),
        ClickAdminButton ''FRA'' ''ADM0'']"

definition regionRequest :: request where
  "regionRequest =
     \<lparr>req_iso = ''FRA'', req_level = ''ADM1'',
      req_path = dataBaseUrl @ ''/FRA/ADM1.geojson''\<rparr>"

definition searchSession :: "event list" where
  "searchSession =
     [SelectSearchResult cookCounty, FetchSettled 0 (okResponse ''USA'' ''ADM0''),
      FetchSettled 0 (okResponse ''USA'' ''ADM2'')]"

definition bretagneContent :: content_record where
  "bretagneContent =
     \<lparr>videos = Some [''https://video.example/1'', ''https://video.example/2''],
      images = Some [''https://image.example/1'', ''https://image.example/2''],
      description = Some ''A region of France''\<rparr>"

definition exampleContent :: "string \<rightharpoonup> (string \<rightharpoonup> (string \<rightharpoonup> content_record))" where
  "exampleContent = [''FRA'' \<mapsto> [''ADM1'' \<mapsto> [''Bretagne'' \<mapsto> bretagneContent]]]"

definition bretagne :: feature where
  "bretagne = \<lparr>shapeName = ''Bretagne'', shapeType = ''ADM1'', shapeGroup = ''FRA''\<rparr>"


definition franceOutline :: feature where
  "franceOutline = \<lparr>shapeName = ''France'', shapeType = ''ADM0'', shapeGroup = ''FRA''\<rparr>"

definition finistere :: feature where
  "finistere = \<lparr>shapeName = ''Finistere'', shapeType = ''ADM2'', shapeGroup = ''FRA''\<rparr>"

definition finistereIslands :: feature where
  "finistereIslands =
     \<lparr>shapeName = ''Finistere (islands)'', shapeType = ''ADM2'', shapeGroup = ''FRA''\<rparr>"

definition exampleHits :: "feature list" where
  "exampleHits = [franceOutline, finistere, bretagne, finistereIslands]"

definition exampleQuery :: "lnglat \<Rightarrow> string list \<Rightarrow> feature list" where
  "exampleQuery point layerIds = exampleHits"

section \<open>Properties\<close>

subsection \<open>What each operation leaves alone\<close>

lemmas renderer_defs = getSource_def getLayer_def setVisible_def addSource_def addLayer_def
  removeLayerR_def removeSource_def flyTo_def onClick_def

lemmas scenario_defs = run_def exampleState_def initialState_def initialRenderer_def
  exampleTerminology_def franceData_def usaData_def emptyCountryData_def okResponse_def
  exampleData_def selectCountry_def clickAdminButton_def selectSearchResult_def
  toggleAdminLevel_def loadAndRenderLayer_def renderLayer_def fetchSettled_def removeLayer_def
  set_add_def set_delete_def cacheKey_def sourceId_def layerIdFill_def layerIdLine_def
  dataBaseUrl_def Let_def renderer_defs cookCounty_def unitedStates_def
  franceSelected_def staleSession_def switchedState_def cachedState_def regionRequest_def
  searchSession_def

lemma renderLayer_fields [simp]:
  "activeLevels (renderLayer s i l g) = activeLevels s"
  "selectedCountryISO (renderLayer s i l g) = selectedCountryISO s"
  "geoJsonCache (renderLayer s i l g) = geoJsonCache s"
  "terminology (renderLayer s i l g) = terminology s"
  "requests (renderLayer s i l g) = requests s"
  "pending (renderLayer s i l g) = pending s"
  "console (renderLayer s i l g) = console s"
  "camera (rmap (renderLayer s i l g)) = camera (rmap s)"
  by (simp_all add: renderLayer_def Let_def renderer_defs split: option.splits)

lemma loadAndRenderLayer_fields [simp]:
  "activeLevels (loadAndRenderLayer s i l) = activeLevels s"
  "selectedCountryISO (loadAndRenderLayer s i l) = selectedCountryISO s"
  "geoJsonCache (loadAndRenderLayer s i l) = geoJsonCache s"
  "terminology (loadAndRenderLayer s i l) = terminology s"
  "console (loadAndRenderLayer s i l) = console s"
  "camera (rmap (loadAndRenderLayer s i l)) = camera (rmap s)"
  by (simp_all add: loadAndRenderLayer_def Let_def setVisible_def split: option.splits)

lemma toggle_on_fields [simp]:
  "activeLevels (toggleAdminLevel s i l True) = set_add (activeLevels s) l"
  "selectedCountryISO (toggleAdminLevel s i l True) = selectedCountryISO s"
  "geoJsonCache (toggleAdminLevel s i l True) = geoJsonCache s"
  "terminology (toggleAdminLevel s i l True) = terminology s"
  "console (toggleAdminLevel s i l True) = console s"
  "camera (rmap (toggleAdminLevel s i l True)) = camera (rmap s)"
  by (simp_all add: toggleAdminLevel_def)

lemma fetchSettled_fields [simp]:
  "activeLevels (fetchSettled s r res) = activeLevels s"
  "selectedCountryISO (fetchSettled s r res) = selectedCountryISO s"
  "terminology (fetchSettled s r res) = terminology s"
  "requests (fetchSettled s r res) = requests s"
  "pending (fetchSettled s r res) = pending s"
  "camera (rmap (fetchSettled s r res)) = camera (rmap s)"
  by (simp_all add: fetchSettled_def Let_def split: response.splits option.splits)


lemma selectCountry_with_levels:
  assumes "terminology s isoCode = Some countryData"
    and "levels countryData = (l0, info) # rest"
  shows "selectedCountryISO (selectCountry s isoCode) = Some isoCode"
    and "activeLevels (selectCountry s isoCode) = [l0]"
    and "camera (rmap (selectCountry s isoCode)) = defaultView countryData"
  using assms by (simp_all add: selectCountry_def Let_def set_add_def flyTo_def)

lemma cache_written_only_on_success:
  "geoJsonCache (fetchSettled s r res) \<noteq> geoJsonCache s \<Longrightarrow> \<exists>status g. res = Response True status (Some g)"
  by (cases res) (auto simp add: fetchSettled_def Let_def split: if_splits option.splits)

subsection \<open>Failed fetches\<close>

text \<open>
  Claim C1: when the dataset fetch of an activation fails, the level is not marked active
  and no draw layers or data source are created for it, so that a level is active exactly
  when its draw layers exist.

  The code marks the level before it loads and its \<open>catch\<close> block returns without
  taking the mark back. In the session below France is selected and its country outline
  loads; the button of the regions is clicked and that fetch fails. No source and no
  layer exist for \<open>FRA_ADM1\<close>, yet \<open>ADM1\<close> is in the active set.
\<close>

theorem failed_fetch_level_stays_active:
  "activeLevels (run exampleState
       [SelectCountry ''FRA'', FetchSettled 0 (okResponse ''FRA'' ''ADM0''),
        ClickAdminButton ''FRA'' ''ADM1'', FetchSettled 0 NetworkError])
     = [''ADM0'', ''ADM1'']
   \<and> map layer_id (layers (rmap (run exampleState
       [SelectCountry ''FRA'', FetchSettled 0 (okResponse ''FRA'' ''ADM0''),
        ClickAdminButton ''FRA'' ''ADM1'', FetchSettled 0 NetworkError])))
     = [''layer-fill-FRA_ADM0'', ''layer-line-FRA_ADM0'']
   \<and> \<not> getSource (rmap (run exampleState
       [SelectCountry ''FRA'', FetchSettled 0 (okResponse ''FRA'' ''ADM0''),
        ClickAdminButton ''FRA'' ''ADM1'', FetchSettled 0 NetworkError])) ''source-FRA_ADM1''"
  by (simp add: scenario_defs)

text \<open>
  Claim C10: a failed fetch leaves the cache as it was; the cache is written only after a
  fetch that succeeded and parsed, so toggling the same level on again fetches again.

  The three ways to fail are a network error, a status that is not ok and a body that
  does not parse. After any of them the cache is unchanged, and a new activation of a key
  that is still neither cached nor drawn issues the fetch for the level's file.
\<close>

theorem failed_fetch_keeps_cache:
  assumes "res = NetworkError \<or> res = Response False status body \<or> res = Response True status None"
  shows "geoJsonCache (fetchSettled s r res) = geoJsonCache s
       \<and> (geoJsonCache s (cacheKey isoCode levelCode) = None
            \<longrightarrow> \<not> getSource (rmap s) (sourceId (cacheKey isoCode levelCode))
            \<longrightarrow> terminology s isoCode = Some countryData
            \<longrightarrow> map_of (levels countryData) levelCode = Some info
            \<longrightarrow> requests (toggleAdminLevel (fetchSettled s r res) isoCode levelCode True)
                  = requests (fetchSettled s r res) @ [dataBaseUrl @ ''/'' @ level_file info])"
proof -
  have same: "fetchSettled s r res = s\<lparr>console := console s @ [loadFailed (req_iso r) (req_level r)]\<rparr>"
    using assms by (auto simp add: fetchSettled_def Let_def)
  show ?thesis unfolding same
    by (simp add: toggleAdminLevel_def loadAndRenderLayer_def Let_def)
qed

theorem failed_fetch_keeps_cache_witness:
  "geoJsonCache franceSelected (cacheKey ''FRA'' ''ADM1'') = None
 \<and> \<not> getSource (rmap franceSelected) (sourceId (cacheKey ''FRA'' ''ADM1''))
 \<and> terminology franceSelected ''FRA'' = Some franceData
 \<and> geoJsonCache (fetchSettled franceSelected regionRequest NetworkError) = geoJsonCache franceSelected
 \<and> requests (toggleAdminLevel (fetchSettled franceSelected regionRequest NetworkError)
               ''FRA'' ''ADM1'' True)
     = requests (fetchSettled franceSelected regionRequest NetworkError)
       @ [dataBaseUrl @ ''/FRA/ADM1.geojson'']"
proof -
  have h1: "geoJsonCache franceSelected (cacheKey ''FRA'' ''ADM1'') = None"
    by (simp add: scenario_defs)
  have h2: "\<not> getSource (rmap franceSelected) (sourceId (cacheKey ''FRA'' ''ADM1''))"
    by (simp add: scenario_defs)
  have h3: "terminology franceSelected ''FRA'' = Some franceData"
    by (simp add: scenario_defs)
  have h4: "map_of (levels franceData) ''ADM1''
          = Some \<lparr>level_term = ''Region'', level_file = ''FRA/ADM1.geojson''\<rparr>"
    by (simp add: franceData_def)
  have r: "NetworkError = NetworkError \<or> NetworkError = Response False 0 None
         \<or> NetworkError = Response True 0 None" by simp
  from failed_fetch_keeps_cache[OF r, of franceSelected regionRequest "''FRA''" "''ADM1''" franceData
      "\<lparr>level_term = ''Region'', level_file = ''FRA/ADM1.geojson''\<rparr>"]
  show ?thesis using h1 h2 h3 h4 by simp
qed

subsection \<open>Draw order\<close>

text \<open>
  Claim C2: of two active levels of one country the lower rank is drawn strictly below the
  higher rank, whatever the order of activation; a new layer is inserted at its rank, not
  appended.

  \<open>loadAndRenderLayer\<close> appends. In the session below the country outline and the
  regions of France are loaded in this order, then the outline is toggled off and on
  again: its two layers end above those of the regions.
\<close>

theorem reactivated_level_drawn_on_top:
  "activeLevels (run exampleState
       [SelectCountry ''FRA'', FetchSettled 0 (okResponse ''FRA'' ''ADM0''),
        ClickAdminButton ''FRA'' ''ADM1'', FetchSettled 0 (okResponse ''FRA'' ''ADM1''),
        ClickAdminButton ''FRA'' ''ADM0'', ClickAdminButton ''FRA'' ''ADM0''])
     = [''ADM1'', ''ADM0'']
   \<and> map layer_id (layers (rmap (run exampleState
       [SelectCountry ''FRA'', FetchSettled 0 (okResponse ''FRA'' ''ADM0''),
        ClickAdminButton ''FRA'' ''ADM1'', FetchSettled 0 (okResponse ''FRA'' ''ADM1''),
        ClickAdminButton ''FRA'' ''ADM0'', ClickAdminButton ''FRA'' ''ADM0''])))
     = [''layer-fill-FRA_ADM1'', ''layer-line-FRA_ADM1'',
        ''layer-fill-FRA_ADM0'', ''layer-line-FRA_ADM0'']"
  by (simp add: scenario_defs)


subsection \<open>Selecting a country\<close>

text \<open>
  Claim C3, amended: for a country without a terminology entry \<open>selectCountry\<close> logs the
  failure, records the country as the selected one and empties the set of active levels;
  it leaves the cache and the camera unchanged and starts no fetch.
\<close>

theorem selectCountry_no_terminology:
  assumes "terminology s isoCode = None"
  shows "selectedCountryISO (selectCountry s isoCode) = Some isoCode
       \<and> activeLevels (selectCountry s isoCode) = []
       \<and> geoJsonCache (selectCountry s isoCode) = geoJsonCache s
       \<and> camera (rmap (selectCountry s isoCode)) = camera (rmap s)
       \<and> pending (selectCountry s isoCode) = pending s
       \<and> requests (selectCountry s isoCode) = requests s
       \<and> console (selectCountry s isoCode) = console s @ [noTerminology isoCode]"
  using assms by (simp add: selectCountry_def Let_def)

theorem selectCountry_no_terminology_witness:
  "terminology franceSelected ''ATL'' = None
 \<and> selectedCountryISO (selectCountry franceSelected ''ATL'') = Some ''ATL''
 \<and> activeLevels (selectCountry franceSelected ''ATL'') = []
 \<and> console (selectCountry franceSelected ''ATL'') = [''No terminology data for ATL'']"
proof -
  have h: "terminology franceSelected ''ATL'' = None" by (simp add: scenario_defs)
  have c: "console franceSelected = []" by (simp add: scenario_defs)
  from selectCountry_no_terminology[OF h] show ?thesis using h c by (simp add: noTerminology_def)
qed

text \<open>
  As first worded the claim has the whole activation state unchanged. With France
  selected and its outline active, selecting an unknown country changes both the
  selected country and the active set.
\<close>

theorem selectCountry_unknown_changes_state:
  "terminology franceSelected ''ATL'' = None
 \<and> selectedCountryISO franceSelected = Some ''FRA''
 \<and> activeLevels franceSelected = [''ADM0'']
 \<and> selectedCountryISO (selectCountry franceSelected ''ATL'') = Some ''ATL''
 \<and> activeLevels (selectCountry franceSelected ''ATL'') = []"
  by (simp add: scenario_defs)

text \<open>
  Claim C7, amended: for a country whose terminology entry lists at least one level,
  \<open>selectCountry\<close> records the country as selected, leaves exactly one level in the
  active set, the first level the entry lists, whatever was active before, and sets the
  camera to the country's default view.
\<close>

theorem selectCountry_first_level:
  assumes "terminology s isoCode = Some countryData"
    and "levels countryData \<noteq> []"
  shows "selectedCountryISO (selectCountry s isoCode) = Some isoCode
       \<and> activeLevels (selectCountry s isoCode) = [fst (hd (levels countryData))]
       \<and> camera (rmap (selectCountry s isoCode)) = defaultView countryData"
proof -
  from assms(2) obtain l0 info rest where lv: "levels countryData = (l0, info) # rest"
    by (cases "levels countryData") auto
  show ?thesis using selectCountry_with_levels[OF assms(1) lv] lv by simp
qed

theorem selectCountry_first_level_witness:
  "terminology exampleState ''FRA'' = Some franceData
 \<and> levels franceData \<noteq> []
 \<and> selectedCountryISO (selectCountry exampleState ''FRA'') = Some ''FRA''
 \<and> activeLevels (selectCountry exampleState ''FRA'') = [''ADM0'']
 \<and> camera (rmap (selectCountry exampleState ''FRA'')) = \<lparr>center = (2, 46), zoom = 5\<rparr>"
proof -
  have h1: "terminology exampleState ''FRA'' = Some franceData"
    by (simp add: exampleState_def initialState_def exampleTerminology_def)
  have h2: "levels franceData \<noteq> []" by (simp add: franceData_def)
  from selectCountry_first_level[OF h1 h2] show ?thesis using h1 h2 by (simp add: franceData_def)
qed

text \<open>
  As first worded the claim covers every country with a terminology entry. For an entry
  that lists no level the guard of \<open>selectCountry\<close> activates nothing.
\<close>

theorem selectCountry_without_levels:
  "terminology exampleState ''VAT'' = Some emptyCountryData
 \<and> activeLevels (selectCountry exampleState ''VAT'') = []"
  by (simp add: scenario_defs)

subsection \<open>Fetches in flight\<close>









subsection \<open>Resolving a click\<close>

lemma compareLevels_neg:
  "adminLevel x = Some m \<Longrightarrow> adminLevel y = Some n \<Longrightarrow> (compareLevels x y < 0) = (n < m)"
  by (simp add: compareLevels_def)

lemma foldl_insertSorted_top:
  assumes "\<forall>f\<in>set xs. \<exists>m. adminLevel f = Some m"
    and "src = pre @ winner # post"
    and "adminLevel winner = Some n"
    and "\<forall>g\<in>set pre. \<exists>m. adminLevel g = Some m \<and> m < n"
    and "\<forall>g\<in>set post. \<exists>m. adminLevel g = Some m \<and> m \<le> n"
  shows "\<exists>pre' winner' post' n' rest'.
           foldl (\<lambda>acc x. insertSorted compareLevels x acc) (winner # rest) xs = winner' # rest'
         \<and> src @ xs = pre' @ winner' # post'
         \<and> adminLevel winner' = Some n'
         \<and> (\<forall>g\<in>set pre'. \<exists>m. adminLevel g = Some m \<and> m < n')
         \<and> (\<forall>g\<in>set post'. \<exists>m. adminLevel g = Some m \<and> m \<le> n')"
  using assms
proof (induction xs arbitrary: src pre winner post n rest)
  case Nil
  then show ?case by auto
next
  case (Cons x xs)
  from Cons.prems(1) obtain m where m: "adminLevel x = Some m" by auto
  from Cons.prems(1) have rest_ok: "\<forall>f\<in>set xs. \<exists>m. adminLevel f = Some m" by simp
  show ?case
  proof (cases "n < m")
    case True
    then have ins: "insertSorted compareLevels x (winner # rest) = x # winner # rest"
      using compareLevels_neg[OF m Cons.prems(3)] by simp
    have below: "\<forall>g\<in>set (pre @ winner # post). \<exists>k. adminLevel g = Some k \<and> k < m"
      using Cons.prems(3,4,5) True by fastforce
    have nil: "\<forall>g\<in>set ([]::feature list). \<exists>k. adminLevel g = Some k \<and> k \<le> m" by simp
    have split: "src @ [x] = (pre @ winner # post) @ x # []" using Cons.prems(2) by simp
    from Cons.IH[OF rest_ok split m below nil, of "winner # rest"]
    show ?thesis using ins by simp
  next
    case False
    then have ins: "insertSorted compareLevels x (winner # rest) = winner # insertSorted compareLevels x rest"
      using compareLevels_neg[OF m Cons.prems(3)] by simp
    have post': "\<forall>g\<in>set (post @ [x]). \<exists>k. adminLevel g = Some k \<and> k \<le> n"
      using Cons.prems(5) m False by auto
    have split: "src @ [x] = pre @ winner # (post @ [x])" using Cons.prems(2) by simp
    from Cons.IH[OF rest_ok split Cons.prems(3) Cons.prems(4) post', of "insertSorted compareLevels x rest"]
    show ?thesis using ins by simp
  qed
qed

lemma resolveFeature_first_most_detailed:
  assumes "features \<noteq> []"
    and "\<forall>f\<in>set features. \<exists>m. adminLevel f = Some m"
  shows "\<exists>pre winner post n.
           resolveFeature features = Some winner
         \<and> features = pre @ winner # post
         \<and> adminLevel winner = Some n
         \<and> (\<forall>g\<in>set pre. \<exists>m. adminLevel g = Some m \<and> m < n)
         \<and> (\<forall>g\<in>set post. \<exists>m. adminLevel g = Some m \<and> m \<le> n)"
proof -
  from assms(1) obtain x xs where fs: "features = x # xs" by (cases features) auto
  from assms(2) fs obtain n where n: "adminLevel x = Some n" by auto
  from assms(2) fs have xs: "\<forall>f\<in>set xs. \<exists>m. adminLevel f = Some m" by simp
  have e1: "\<forall>g\<in>set ([]::feature list). \<exists>m. adminLevel g = Some m \<and> m < n" by simp
  have e2: "\<forall>g\<in>set ([]::feature list). \<exists>m. adminLevel g = Some m \<and> m \<le> n" by simp
  have split: "[x] = [] @ x # []" by simp
  from foldl_insertSorted_top[OF xs split n e1 e2, of "[]"]
  obtain pre' winner' post' n' rest' where
    sorted: "foldl (\<lambda>acc x. insertSorted compareLevels x acc) [x] xs = winner' # rest'"
    and parts: "[x] @ xs = pre' @ winner' # post'" "adminLevel winner' = Some n'"
    "\<forall>g\<in>set pre'. \<exists>m. adminLevel g = Some m \<and> m < n'"
    "\<forall>g\<in>set post'. \<exists>m. adminLevel g = Some m \<and> m \<le> n'"
    by blast
  have "array_sort compareLevels features = winner' # rest'"
    using sorted fs by (simp add: array_sort_def)
  then have res: "resolveFeature features = Some winner'"
    by (simp add: resolveFeature_def)
  have "features = pre' @ winner' # post'" using parts(1) fs by simp
  with res parts show ?thesis by blast
qed

lemma example_levels:
  "adminLevel franceOutline = Some 0" "adminLevel bretagne = Some 1"
  "adminLevel finistere = Some 2" "adminLevel finistereIslands = Some 2"
  by (simp_all add: franceOutline_def bretagne_def finistere_def finistereIslands_def
      adminLevel_def parseInt_def isWhiteSpace_def digitValue_def Let_def)

lemma exampleHits_levels: "\<forall>f\<in>set exampleHits. \<exists>m. adminLevel f = Some m"
  by (simp add: exampleHits_def example_levels)

text \<open>
  Claim C5: of the features hit under a click the resolver picks the one of the highest
  level rank, and of several at that rank the first one reported; with no feature hit
  the handler does nothing.

  The features are those the renderer reports for the fill layers of the active levels,
  each carrying a level code that \<open>parseInt\<close> reads. The winner splits the hits into
  those before it, all of a lower rank, and those after it, none of a higher rank.
\<close>

theorem handleFeatureClick_most_detailed:
  assumes "features = query point (map (\<lambda>lvl. layerIdFill (cacheKey isoCode lvl)) (activeLevels s))"
    and "\<forall>f\<in>set features. \<exists>m. adminLevel f = Some m"
  shows "(features = [] \<longrightarrow> handleFeatureClick s query point lngLat isoCode levelCode = s)
       \<and> (features \<noteq> [] \<longrightarrow>
            (\<exists>pre winner post n.
                handleFeatureClick s query point lngLat isoCode levelCode = showPopup s winner lngLat
              \<and> features = pre @ winner # post
              \<and> adminLevel winner = Some n
              \<and> (\<forall>g\<in>set pre. \<exists>m. adminLevel g = Some m \<and> m < n)
              \<and> (\<forall>g\<in>set post. \<exists>m. adminLevel g = Some m \<and> m \<le> n)))"
proof (intro conjI impI)
  assume "features = []"
  then show "handleFeatureClick s query point lngLat isoCode levelCode = s"
    using assms(1) by (simp add: handleFeatureClick_def Let_def)
next
  assume ne: "features \<noteq> []"
  from resolveFeature_first_most_detailed[OF ne assms(2)]
  obtain pre winner post n where r: "resolveFeature features = Some winner"
    "features = pre @ winner # post" "adminLevel winner = Some n"
    "\<forall>g\<in>set pre. \<exists>m. adminLevel g = Some m \<and> m < n"
    "\<forall>g\<in>set post. \<exists>m. adminLevel g = Some m \<and> m \<le> n"
    by blast
  have "handleFeatureClick s query point lngLat isoCode levelCode = showPopup s winner lngLat"
    using ne r(1) assms(1) by (simp add: handleFeatureClick_def Let_def)
  with r show "\<exists>pre winner post n.
                handleFeatureClick s query point lngLat isoCode levelCode = showPopup s winner lngLat
              \<and> features = pre @ winner # post
              \<and> adminLevel winner = Some n
              \<and> (\<forall>g\<in>set pre. \<exists>m. adminLevel g = Some m \<and> m < n)
              \<and> (\<forall>g\<in>set post. \<exists>m. adminLevel g = Some m \<and> m \<le> n)"
    by blast
qed


theorem handleFeatureClick_most_detailed_witness:
  "handleFeatureClick franceSelected exampleQuery (10, 20) (2, 48) ''FRA'' ''ADM0''
     = showPopup franceSelected finistere (2, 48)"
proof -
  have q: "exampleHits = exampleQuery (10, 20)
             (map (\<lambda>lvl. layerIdFill (cacheKey ''FRA'' lvl)) (activeLevels franceSelected))"
    by (simp add: exampleQuery_def)
  have ne: "exampleHits \<noteq> []" by (simp add: exampleHits_def)
  from handleFeatureClick_most_detailed[where features = exampleHits and query = exampleQuery
      and point = "(10, 20)" and isoCode = "''FRA''" and s = franceSelected
      and lngLat = "(2, 48)" and levelCode = "''ADM0''", OF q exampleHits_levels] ne
  obtain pre winner post n where
    h: "handleFeatureClick franceSelected exampleQuery (10, 20) (2, 48) ''FRA'' ''ADM0''
          = showPopup franceSelected winner (2, 48)"
    and split: "exampleHits = pre @ winner # post"
    and n: "adminLevel winner = Some n"
    and before: "\<forall>g\<in>set pre. \<exists>m. adminLevel g = Some m \<and> m < n"
    and after: "\<forall>g\<in>set post. \<exists>m. adminLevel g = Some m \<and> m \<le> n"
    by blast
  from split have cases:
    "(winner = franceOutline \<and> post = [finistere, bretagne, finistereIslands])
   \<or> (winner = finistere \<and> pre = [franceOutline])
   \<or> (winner = bretagne \<and> post = [finistereIslands])
   \<or> (winner = finistereIslands \<and> pre = [franceOutline, finistere, bretagne])"
    unfolding exampleHits_def by (auto simp add: Cons_eq_append_conv)
  with n before after have "winner = finistere"
    by (auto simp add: example_levels)
  with h show ?thesis by simp
qed

subsection \<open>Popup content\<close>




lemma buildPopup_bretagne:
  "buildPopup (initialState exampleTerminology exampleContent) bretagne (- 3, 48)
     = \<lparr>popup_title = ''Bretagne'', popup_subtitle = ''Region'',
        popup_media = [Video ''https://video.example/1'',
                       Image ''https://image.example/1'' ''Bretagne''],
        popup_description = Some ''A region of France'', popup_at = (- 3, 48)\<rparr>"
  by (simp add: buildPopup_def lookupLevelTerm_def lookupContent_def mediaHtml_def Let_def
      initialState_def exampleTerminology_def franceData_def exampleContent_def
      bretagneContent_def bretagne_def)

subsection \<open>Search navigation\<close>

text \<open>
  A search record names a country and a level of the catalogue. Choosing a record of a
  country other than the selected one leaves the record's country selected, the camera at
  the record's point, and in the set of active levels the first level the country's entry
  lists and the record's level, and nothing else.
\<close>

lemma selectSearchResult_marks_both:
  assumes "selectedCountryISO s \<noteq> Some (item_iso item)"
    and "terminology s (item_iso item) = Some countryData"
    and "item_level item \<in> fst ` set (levels countryData)"
  shows "selectedCountryISO (selectSearchResult s item) = Some (item_iso item)
       \<and> set (activeLevels (selectSearchResult s item))
           = {fst (hd (levels countryData)), item_level item}
       \<and> camera (rmap (selectSearchResult s item)) = \<lparr>center = item_center item, zoom = 7\<rparr>"
proof -
  from assms(3) obtain l0 info rest where lv: "levels countryData = (l0, info) # rest"
    by (cases "levels countryData") auto
  from selectCountry_with_levels[OF assms(2) lv]
  show ?thesis using assms(1) lv
    by (auto simp add: selectSearchResult_def Let_def set_add_def flyTo_def)
qed

lemma selectSearchResult_marks_both_example:
  "selectedCountryISO franceSelected \<noteq> Some (item_iso cookCounty)
 \<and> activeLevels franceSelected = [''ADM0'']
 \<and> selectedCountryISO (selectSearchResult franceSelected cookCounty) = Some ''USA''
 \<and> set (activeLevels (selectSearchResult franceSelected cookCounty)) = {''ADM0'', ''ADM2''}
 \<and> camera (rmap (selectSearchResult franceSelected cookCounty)) = \<lparr>center = (- 88, 42), zoom = 7\<rparr>"
proof -
  have h1: "selectedCountryISO franceSelected \<noteq> Some (item_iso cookCounty)"
    by (simp add: scenario_defs)
  have h2: "terminology franceSelected (item_iso cookCounty) = Some usaData"
    by (simp add: scenario_defs)
  have h3: "item_level cookCounty \<in> fst ` set (levels usaData)"
    by (simp add: cookCounty_def usaData_def)
  have a: "activeLevels franceSelected = [''ADM0'']" by (simp add: scenario_defs)
  from selectSearchResult_marks_both[OF h1 h2 h3] show ?thesis using h1 a
    by (simp add: cookCounty_def usaData_def)
qed

text \<open>
  Claim C6: choosing a search record of a country other than the selected one clears the
  previous country's active levels through \<open>selectCountry\<close>, activates the new
  country's least detailed level, moves the camera to the record's point and activates
  the record's level, so that both levels end up active.

  An active level is one that is drawn. \<open>selectCountry\<close> empties the set of active
  levels and removes no layer, although its caller notes that it resets the layers. In
  the session below France is selected with its outline drawn, the record of Cook County
  is chosen and both fetches for the United States succeed. The country, the camera and
  the set of active levels end as the claim says, and the two levels of the United States
  are drawn, but the outline of France is still drawn beneath them.
\<close>

theorem search_leaves_previous_country_drawn:
  "selectedCountryISO franceSelected = Some ''FRA''
 \<and> map layer_id (layers (rmap franceSelected))
     = [''layer-fill-FRA_ADM0'', ''layer-line-FRA_ADM0'']
 \<and> selectedCountryISO (run franceSelected searchSession) = Some ''USA''
 \<and> activeLevels (run franceSelected searchSession) = [''ADM0'', ''ADM2'']
 \<and> camera (rmap (run franceSelected searchSession)) = \<lparr>center = (- 88, 42), zoom = 7\<rparr>
 \<and> pending (run franceSelected searchSession) = []
 \<and> map layer_id (layers (rmap (run franceSelected searchSession)))
     = [''layer-fill-FRA_ADM0'', ''layer-line-FRA_ADM0'',
        ''layer-fill-USA_ADM0'', ''layer-line-USA_ADM0'',
        ''layer-fill-USA_ADM2'', ''layer-line-USA_ADM2'']
 \<and> getSource (rmap (run franceSelected searchSession)) ''source-FRA_ADM0''"
  by (simp add: scenario_defs)

end
